theory Spec2Isabelle
  imports Main "HOL-Library.AList"
begin

section \<open>libfsm: the type-safe state machine of StateMachine.hpp\<close>

text \<open>
  The library is a class template over a pack of state classes. A state class is named
  by a value of type \<open>'s\<close>, an event class by a value of type \<open>'e\<close>; \<open>'d\<close> is the
  member data of a state object and \<open>'p\<close> the member data of an event object. What the
  compiler decides (the \<^verbatim>\<open>static_assert\<close>s, whether \<^verbatim>\<open>std::get<State>\<close> is well-formed,
  which \<^verbatim>\<open>InvokeHandleImpl\<close> overload is chosen) is a build-time failure or a choice that
  depends on class names only; what the running program does is a function on the
  memory that holds the machine objects, given the address \<open>this\<close> of the object the member
  is called on.
\<close>

subsection \<open>Failures\<close>

datatype failure =
    StaticAssertFailed
  | IllFormed
  | NullPointerDereference
  | DanglingPointer

text \<open>The first two stop the build; the last two are undefined behaviour of a running
  program (a member call through a pointer that points at no state object).\<close>

fun build_time :: "failure \<Rightarrow> bool" where
  "build_time StaticAssertFailed = True"
| "build_time IllFormed = True"
| "build_time NullPointerDereference = False"
| "build_time DanglingPointer = False"

fun and_then :: "failure + 'a \<Rightarrow> ('a \<Rightarrow> failure + 'b) \<Rightarrow> failure + 'b" where
  "and_then (Inl f) k = Inl f"
| "and_then (Inr x) k = k x"

subsection \<open>Transition directives and user classes\<close>

text \<open>\<^verbatim>\<open>struct NullTransition\<close> and \<^verbatim>\<open>template <typename State> struct TransitionTo\<close>:
  the two types a \<^verbatim>\<open>Handle\<close> member returns. The target is a template argument, so it
  is part of the directive's type.\<close>

datatype 's directive = NullTransition | TransitionTo 's

text \<open>A \<^verbatim>\<open>void\<close> member function of a state object: from the object's member data to
  the new member data and the lines it writes to \<^verbatim>\<open>std::cout\<close>.\<close>

type_synonym 'd member_function = "'d \<Rightarrow> 'd \<times> string list"

text \<open>
  The classes of a program that uses the library, and its build configuration.
  \<^item> \<open>LIBFSM_DEBUG\<close>: whether the macro is defined.
  \<^item> \<open>derived_from_State S\<close>: \<^verbatim>\<open>std::is_base_of<fsm::State, S>::value\<close>; likewise for events.
  \<^item> \<open>construct S\<close>: the member data of a value-initialised object of class \<open>S\<close>.
  \<^item> \<open>Name_override\<close>, \<open>OnStateEnter_override\<close>, \<open>OnStateExit_override\<close>: the class's
    override of the virtual member, \<open>None\<close> when it has none. \<^verbatim>\<open>Name\<close> reads the object and
    returns a string (every \<^verbatim>\<open>Name\<close> of the repository returns a literal).
  \<^item> \<open>Handle S E\<close>: \<open>None\<close> when \<^verbatim>\<open>state->Handle(event)\<close> is ill-formed for a state of class
    \<open>S\<close> and an event of class \<open>E\<close>; otherwise the directive type the chosen \<^verbatim>\<open>Handle\<close>
    member returns and what its body does to the state object, given the event's data.
  A member of a state class reaches its own object and \<^verbatim>\<open>std::cout\<close>; the machine's
  members are private, and no state object is given a pointer to the machine.
\<close>

record ('s, 'e, 'p, 'd) program =
  LIBFSM_DEBUG :: bool
  derived_from_State :: "'s \<Rightarrow> bool"
  derived_from_Event :: "'e \<Rightarrow> bool"
  construct :: "'s \<Rightarrow> 'd"
  Name_override :: "'s \<Rightarrow> ('d \<Rightarrow> string) option"
  OnStateEnter_override :: "'s \<Rightarrow> 'd member_function option"
  OnStateExit_override :: "'s \<Rightarrow> 'd member_function option"
  Handle :: "'s \<Rightarrow> 'e \<Rightarrow> ('s directive \<times> ('p \<Rightarrow> 'd member_function)) option"

text \<open>\<^verbatim>\<open>class State\<close>: the virtual members' default bodies.\<close>

definition State_OnStateEnter :: "'d member_function" where
  "State_OnStateEnter d = (d, [])"

definition State_OnStateExit :: "'d member_function" where
  "State_OnStateExit d = (d, [])"

definition State_Name :: "'d \<Rightarrow> string" where
  "State_Name d = ''<Unnamed State>''"

text \<open>A virtual call on an object of class \<open>S\<close>: the override when the class has one.\<close>

definition OnStateEnter :: "('s, 'e, 'p, 'd) program \<Rightarrow> 's \<Rightarrow> 'd member_function" where
  "OnStateEnter C S =
     (case OnStateEnter_override C S of None \<Rightarrow> State_OnStateEnter | Some f \<Rightarrow> f)"

definition OnStateExit :: "('s, 'e, 'p, 'd) program \<Rightarrow> 's \<Rightarrow> 'd member_function" where
  "OnStateExit C S =
     (case OnStateExit_override C S of None \<Rightarrow> State_OnStateExit | Some f \<Rightarrow> f)"

definition Name :: "('s, 'e, 'p, 'd) program \<Rightarrow> 's \<Rightarrow> 'd \<Rightarrow> string" where
  "Name C S = (case Name_override C S of None \<Rightarrow> State_Name | Some f \<Rightarrow> f)"

text \<open>\<^verbatim>\<open>detail::ValidateType\<close>: the fold \<^verbatim>\<open>(Trait<Type, Types>::value && ...)\<close>.\<close>

definition IsDerivedFromState :: "('s, 'e, 'p, 'd) program \<Rightarrow> 's list \<Rightarrow> bool" where
  "IsDerivedFromState C Ss = list_all (derived_from_State C) Ss"

definition IsDerivedFromEvent :: "('s, 'e, 'p, 'd) program \<Rightarrow> 'e list \<Rightarrow> bool" where
  "IsDerivedFromEvent C Es = list_all (derived_from_Event C) Es"

subsection \<open>Machine objects in memory\<close>

type_synonym address = nat

text \<open>
  A value of one alternative \<^verbatim>\<open>S *\<close> of \<^verbatim>\<open>std::variant<States *...>\<close>: the null pointer of
  that type, or the address of the element of class \<open>S\<close> of the tuple of the machine object
  at the given address.
\<close>

datatype 's ptr = nullptr 's | AddressOf address 's

fun pointee :: "'s ptr \<Rightarrow> 's" where
  "pointee (nullptr S) = S"
| "pointee (AddressOf a S) = S"

text \<open>A hook invocation, by the class of the object it was invoked on.\<close>

datatype 's hook_call = Exited 's | Entered 's

text \<open>
  A \<^verbatim>\<open>StateMachine<States...>\<close> object. \<open>states\<close> is \<^verbatim>\<open>std::tuple<States...> states\<close>, each
  element with its class, in declaration order; \<open>currentState\<close> is
  \<^verbatim>\<open>std::variant<States *...> currentState\<close>. \<open>fired\<close> is not a member of the class: it records
  every call of \<^verbatim>\<open>OnStateExit\<close> and \<^verbatim>\<open>OnStateEnter\<close> this machine makes, in order.
\<close>

record ('s, 'd) machine =
  states :: "('s \<times> 'd) list"
  currentState :: "'s ptr"
  fired :: "'s hook_call list"

text \<open>The machine objects that are alive, by address, and the lines written to
  \<^verbatim>\<open>std::cout\<close>.\<close>

record ('s, 'd) memory =
  objects :: "address \<Rightarrow> ('s, 'd) machine option"
  cout :: "string list"

text \<open>A program starts with no machine object and nothing written.\<close>

definition program_start :: "('s, 'd) memory" where
  "program_start = \<lparr>objects = (\<lambda>a. None), cout = []\<rparr>"

text \<open>\<^verbatim>\<open>*this\<close> in a member function: the object the member is called on.\<close>

definition object_at :: "address \<Rightarrow> ('s, 'd) memory \<Rightarrow> failure + ('s, 'd) machine" where
  "object_at this h = (case objects h this of None \<Rightarrow> Inl DanglingPointer | Some m \<Rightarrow> Inr m)"

text \<open>Reading the state object a pointer points at, and writing it (a write follows a
  read through the same pointer, so it finds the object).\<close>

fun deref :: "'s ptr \<Rightarrow> ('s, 'd) memory \<Rightarrow> failure + 'd" where
  "deref (nullptr S) h = Inl NullPointerDereference"
| "deref (AddressOf a S) h =
     (case objects h a of
        None \<Rightarrow> Inl DanglingPointer
      | Some m \<Rightarrow>
          (case map_of (states m) S of None \<Rightarrow> Inl DanglingPointer | Some d \<Rightarrow> Inr d))"

fun assign :: "'s ptr \<Rightarrow> 'd \<Rightarrow> ('s, 'd) memory \<Rightarrow> ('s, 'd) memory" where
  "assign (nullptr S) d h = h"
| "assign (AddressOf a S) d h =
     (case objects h a of
        None \<Rightarrow> h
      | Some m \<Rightarrow> h\<lparr>objects := (objects h)(a \<mapsto> m\<lparr>states := AList.update S d (states m)\<rparr>)\<rparr>)"

text \<open>\<^verbatim>\<open>state_ptr->f()\<close> for a \<^verbatim>\<open>void\<close> member function \<open>f\<close>.\<close>

definition call_member ::
  "'s ptr \<Rightarrow> 'd member_function \<Rightarrow> ('s, 'd) memory \<Rightarrow> failure + ('s, 'd) memory" where
  "call_member p f h =
     and_then (deref p h) (\<lambda>d.
       case f d of (d', out) \<Rightarrow> Inr ((assign p d' h)\<lparr>cout := cout h @ out\<rparr>))"

text \<open>The default constructor, for the storage at \<open>this\<close>: the default member initialisers of
  \<^verbatim>\<open>states\<close> and \<^verbatim>\<open>currentState\<close>. The class's \<^verbatim>\<open>static_assert\<close> comes first;
  \<^verbatim>\<open>std::get<0>\<close> needs a first element; the variant's converting constructor needs the
  first class to name one alternative only.\<close>

definition StateMachine ::
  "('s, 'e, 'p, 'd) program \<Rightarrow> 's list \<Rightarrow> address \<Rightarrow> ('s, 'd) memory
     \<Rightarrow> failure + ('s, 'd) memory" where
  "StateMachine C States this h =
     (if \<not> IsDerivedFromState C States then Inl StaticAssertFailed
      else case States of
        [] \<Rightarrow> Inl IllFormed
      | S0 # _ \<Rightarrow>
          if count_list States S0 \<noteq> 1 then Inl IllFormed
          else Inr (h\<lparr>objects := (objects h)(this \<mapsto>
                      \<lparr>states = map (\<lambda>S. (S, construct C S)) States,
                       currentState = AddressOf this S0,
                       fired = []\<rparr>)\<rparr>))"

text \<open>
  The class declares no copy constructor, so the compiler declares one:
  \<^verbatim>\<open>StateMachine(const StateMachine &other)\<close> copies each member from \<open>other\<close>'s, the state
  objects by their own implicit copy constructors and the variant with the pointer it
  holds. The default member initialisers are not used. (The implicit move constructor
  and the two implicit assignments treat \<open>currentState\<close> the same way.)
\<close>

definition StateMachine_copy ::
  "address \<Rightarrow> address \<Rightarrow> ('s, 'd) memory \<Rightarrow> failure + ('s, 'd) memory" where
  "StateMachine_copy this other h =
     and_then (object_at other h) (\<lambda>m.
       Inr (h\<lparr>objects := (objects h)(this \<mapsto>
              \<lparr>states = states m, currentState = currentState m, fired = []\<rparr>)\<rparr>))"

text \<open>The end of a machine object's lifetime: its tuple goes with it.\<close>

definition StateMachine_destroy :: "address \<Rightarrow> ('s, 'd) memory \<Rightarrow> ('s, 'd) memory" where
  "StateMachine_destroy this h = h\<lparr>objects := (objects h)(this := None)\<rparr>"

text \<open>\<^verbatim>\<open>CallOnStateEnter\<close> and \<^verbatim>\<open>CallOnStateExit\<close>: visit \<open>currentState\<close> and call the hook
  through the pointer it holds.\<close>

definition CallOnStateEnter ::
  "('s, 'e, 'p, 'd) program \<Rightarrow> address \<Rightarrow> ('s, 'd) memory \<Rightarrow> failure + ('s, 'd) memory" where
  "CallOnStateEnter C this h =
     and_then (object_at this h) (\<lambda>m.
       let state_ptr = currentState m in
       call_member state_ptr (OnStateEnter C (pointee state_ptr))
         (h\<lparr>objects := (objects h)(this \<mapsto>
              m\<lparr>fired := fired m @ [Entered (pointee state_ptr)]\<rparr>)\<rparr>))"

definition CallOnStateExit ::
  "('s, 'e, 'p, 'd) program \<Rightarrow> address \<Rightarrow> ('s, 'd) memory \<Rightarrow> failure + ('s, 'd) memory" where
  "CallOnStateExit C this h =
     and_then (object_at this h) (\<lambda>m.
       let state_ptr = currentState m in
       call_member state_ptr (OnStateExit C (pointee state_ptr))
         (h\<lparr>objects := (objects h)(this \<mapsto>
              m\<lparr>fired := fired m @ [Exited (pointee state_ptr)]\<rparr>)\<rparr>))"

text \<open>What the compiler checks when \<^verbatim>\<open>Transition<State>\<close> is instantiated: the
  \<^verbatim>\<open>static_assert\<close>, then that \<^verbatim>\<open>std::get<State>(states)\<close> is well-formed, which it is when
  \<open>State\<close> occurs exactly once among the tuple's types.\<close>

definition Transition_check ::
  "('s, 'e, 'p, 'd) program \<Rightarrow> 's list \<Rightarrow> 's \<Rightarrow> failure option" where
  "Transition_check C States State =
     (if \<not> IsDerivedFromState C [State] then Some StaticAssertFailed
      else if count_list States State \<noteq> 1 then Some IllFormed
      else None)"

text \<open>\<^verbatim>\<open>StateMachine::Transition<State>()\<close>. The assignment stores the address of the
  element of this machine's own tuple.\<close>

definition Transition ::
  "('s, 'e, 'p, 'd) program \<Rightarrow> 's list \<Rightarrow> 's \<Rightarrow> address \<Rightarrow> ('s, 'd) memory
     \<Rightarrow> failure + ('s, 'd) memory" where
  "Transition C States State this h =
     (case Transition_check C States State of
        Some f \<Rightarrow> Inl f
      | None \<Rightarrow>
          and_then (CallOnStateExit C this h) (\<lambda>h1.
          and_then (object_at this h1) (\<lambda>m1.
            CallOnStateEnter C this
              (h1\<lparr>objects := (objects h1)(this \<mapsto>
                    m1\<lparr>currentState := AddressOf this State\<rparr>)\<rparr>))))"

text \<open>\<^verbatim>\<open>NullTransition::Execute\<close> and \<^verbatim>\<open>TransitionTo<State>::Execute\<close>; \<open>this\<close> is the
  machine the directive is executed on.\<close>

fun Execute ::
  "('s, 'e, 'p, 'd) program \<Rightarrow> 's list \<Rightarrow> 's directive \<Rightarrow> address \<Rightarrow> ('s, 'd) memory
     \<Rightarrow> failure + ('s, 'd) memory" where
  "Execute C States NullTransition this h =
     Inr (if LIBFSM_DEBUG C then h\<lparr>cout := cout h @ [''Called Null Transition'']\<rparr> else h)"
| "Execute C States (TransitionTo State) this h =
     (if \<not> IsDerivedFromState C [State] then Inl StaticAssertFailed
      else Transition C States State this h)"

fun Execute_check ::
  "('s, 'e, 'p, 'd) program \<Rightarrow> 's list \<Rightarrow> 's directive \<Rightarrow> failure option" where
  "Execute_check C States NullTransition = None"
| "Execute_check C States (TransitionTo State) =
     (if \<not> IsDerivedFromState C [State] then Some StaticAssertFailed
      else Transition_check C States State)"

text \<open>The return type of \<^verbatim>\<open>detail::InvokeHandle<State, Event>\<close>: that of the \<^verbatim>\<open>int\<close>
  overload of \<^verbatim>\<open>InvokeHandleImpl\<close> when \<^verbatim>\<open>state->Handle(event)\<close> is well-formed, and
  \<^verbatim>\<open>NullTransition\<close>, from the \<^verbatim>\<open>double\<close> overload, when it is not.\<close>

definition InvokeHandle_type ::
  "('s, 'e, 'p, 'd) program \<Rightarrow> 's \<Rightarrow> 'e \<Rightarrow> 's directive" where
  "InvokeHandle_type C S E =
     (case Handle C S E of None \<Rightarrow> NullTransition | Some (dir, body) \<Rightarrow> dir)"

text \<open>\<^verbatim>\<open>detail::InvokeHandle(state, event)\<close>: the \<^verbatim>\<open>int\<close> overload calls \<^verbatim>\<open>Handle\<close> through
  the pointer; the \<^verbatim>\<open>double\<close> overload does not touch it.\<close>

definition InvokeHandle ::
  "('s, 'e, 'p, 'd) program \<Rightarrow> 's ptr \<Rightarrow> 'e \<times> 'p \<Rightarrow> ('s, 'd) memory
     \<Rightarrow> failure + ('s directive \<times> ('s, 'd) memory)" where
  "InvokeHandle C state event h =
     (case Handle C (pointee state) (fst event) of
        None \<Rightarrow> Inr (NullTransition, h)
      | Some (dir, body) \<Rightarrow>
          and_then (call_member state (body (snd event)) h) (\<lambda>h1. Inr (dir, h1)))"

text \<open>What the compiler checks when \<^verbatim>\<open>Dispatch<Event>\<close> is instantiated: the
  \<^verbatim>\<open>static_assert\<close>, then the body of the visitor for every alternative of the variant,
  that is \<^verbatim>\<open>Execute\<close> of the directive type each state class gives for the event class.\<close>

definition Dispatch_check ::
  "('s, 'e, 'p, 'd) program \<Rightarrow> 's list \<Rightarrow> 'e \<Rightarrow> failure option" where
  "Dispatch_check C States E =
     (if \<not> IsDerivedFromEvent C [E] then Some StaticAssertFailed
      else case List.map_filter (\<lambda>S. Execute_check C States (InvokeHandle_type C S E)) States of
        [] \<Rightarrow> None
      | f # _ \<Rightarrow> Some f)"

text \<open>\<^verbatim>\<open>StateMachine::Dispatch(const Event &event)\<close>. An event is its class and its
  member data.\<close>

definition Dispatch ::
  "('s, 'e, 'p, 'd) program \<Rightarrow> 's list \<Rightarrow> 'e \<times> 'p \<Rightarrow> address \<Rightarrow> ('s, 'd) memory
     \<Rightarrow> failure + ('s, 'd) memory" where
  "Dispatch C States event this h =
     (case Dispatch_check C States (fst event) of
        Some f \<Rightarrow> Inl f
      | None \<Rightarrow>
          and_then (object_at this h) (\<lambda>m.
          and_then (InvokeHandle C (currentState m) event h) (\<lambda>(dir, h1).
            Execute C States dir this h1)))"

text \<open>\<^verbatim>\<open>StateMachine::GetCurrentStateName()\<close>: visit \<open>currentState\<close> and call the virtual
  \<^verbatim>\<open>Name\<close> through the pointer.\<close>

definition GetCurrentStateName ::
  "('s, 'e, 'p, 'd) program \<Rightarrow> address \<Rightarrow> ('s, 'd) memory \<Rightarrow> failure + string" where
  "GetCurrentStateName C this h =
     and_then (object_at this h) (\<lambda>m.
       let state_ptr = currentState m in
       and_then (deref state_ptr h) (\<lambda>d. Inr (Name C (pointee state_ptr) d)))"

subsection \<open>The active reference and the machines a program can reach\<close>

text \<open>The active reference of the machine object at \<open>this\<close> is valid: the object is alive,
  its tuple holds the declared classes, and its variant holds the address of an element
  of its own tuple, whose class is the class of exactly one element.\<close>

definition active_reference_valid :: "'s list \<Rightarrow> address \<Rightarrow> ('s, 'd) memory \<Rightarrow> bool" where
  "active_reference_valid States this h =
     (case objects h this of
        None \<Rightarrow> False
      | Some m \<Rightarrow>
          map fst (states m) = States \<and>
          (case currentState m of
             nullptr S \<Rightarrow> False
           | AddressOf a S \<Rightarrow>
               a = this \<and> length (filter (\<lambda>(T, d). T = S) (states m)) = 1))"

text \<open>The memories a program gets by default-constructing a machine at \<open>this\<close> and calling
  the public members that change it.\<close>

inductive reachable ::
  "('s, 'e, 'p, 'd) program \<Rightarrow> 's list \<Rightarrow> address \<Rightarrow> ('s, 'd) memory \<Rightarrow> bool"
  for C :: "('s, 'e, 'p, 'd) program" and States :: "'s list" and this :: address where
  constructed: "StateMachine C States this h0 = Inr h \<Longrightarrow> reachable C States this h"
| dispatched:
    "reachable C States this h \<Longrightarrow> Dispatch C States event this h = Inr h' \<Longrightarrow>
       reachable C States this h'"
| transitioned:
    "reachable C States this h \<Longrightarrow> Transition C States State this h = Inr h' \<Longrightarrow>
       reachable C States this h'"

subsection \<open>The macros\<close>

text \<open>\<^verbatim>\<open>FSM_TRANSITION(State, Event)\<close>: a \<^verbatim>\<open>Handle\<close> member that returns
  \<^verbatim>\<open>fsm::TransitionTo<State>\<close> and does nothing else. \<^verbatim>\<open>FSM_STATE_BEGIN(StateName)\<close>
  overrides \<^verbatim>\<open>Name\<close> to return the class name as written; the demos below give that
  string with each class.\<close>

definition FSM_TRANSITION :: "'s \<Rightarrow> 's directive \<times> ('p \<Rightarrow> 'd member_function)" where
  "FSM_TRANSITION State = (TransitionTo State, \<lambda>event d. (d, []))"

text \<open>A \<^verbatim>\<open>Handle\<close> member written by hand: \<^verbatim>\<open>fsm::TransitionTo<State> Handle(const Event &)\<close>
  with the body \<^verbatim>\<open>return {};\<close>, and one whose body writes a line first.\<close>

definition returns_TransitionTo :: "'s \<Rightarrow> 's directive \<times> ('p \<Rightarrow> 'd member_function)" where
  "returns_TransitionTo State = (TransitionTo State, \<lambda>event d. (d, []))"

definition printing_Handle :: "string \<Rightarrow> 's \<Rightarrow> 's directive \<times> ('p \<Rightarrow> 'd member_function)" where
  "printing_Handle line State = (TransitionTo State, \<lambda>event d. (d, [line]))"

subsection \<open>The fixture of StateMachineTest.cpp\<close>

datatype test_state = State1 | State2

datatype test_event = Event1 | Event2

fun test_Name :: "test_state \<Rightarrow> string" where
  "test_Name State1 = ''State1''"
| "test_Name State2 = ''State2''"

fun test_Handle ::
  "test_state \<Rightarrow> test_event \<Rightarrow> (test_state directive \<times> (unit \<Rightarrow> unit member_function)) option" where
  "test_Handle State1 Event1 = Some (returns_TransitionTo State2)"
| "test_Handle State2 Event2 = Some (returns_TransitionTo State1)"
| "test_Handle _ _ = None"

definition test_program :: "(test_state, test_event, unit, unit) program" where
  "test_program =
     \<lparr>LIBFSM_DEBUG = False,
      derived_from_State = (\<lambda>S. True),
      derived_from_Event = (\<lambda>E. True),
      construct = (\<lambda>S. ()),
      Name_override = (\<lambda>S. Some (\<lambda>d. test_Name S)),
      OnStateEnter_override = (\<lambda>S. None),
      OnStateExit_override = (\<lambda>S. None),
      Handle = test_Handle\<rparr>"

definition test_StateMachine :: "test_state list" where
  "test_StateMachine = [State1, State2]"

subsection \<open>demos/door/main.cpp\<close>

datatype door_event = OpenEvent | CloseEvent

datatype door_state = ClosedState | OpenState

fun door_Name :: "door_state \<Rightarrow> string" where
  "door_Name ClosedState = ''ClosedState''"
| "door_Name OpenState = ''OpenState''"

fun door_Handle ::
  "door_state \<Rightarrow> door_event \<Rightarrow> (door_state directive \<times> (unit \<Rightarrow> unit member_function)) option" where
  "door_Handle ClosedState OpenEvent = Some (FSM_TRANSITION OpenState)"
| "door_Handle OpenState CloseEvent = Some (FSM_TRANSITION ClosedState)"
| "door_Handle _ _ = None"

definition door_program :: "(door_state, door_event, unit, unit) program" where
  "door_program =
     \<lparr>LIBFSM_DEBUG = False,
      derived_from_State = (\<lambda>S. True),
      derived_from_Event = (\<lambda>E. True),
      construct = (\<lambda>S. ()),
      Name_override = (\<lambda>S. Some (\<lambda>d. door_Name S)),
      OnStateEnter_override = (\<lambda>S. None),
      OnStateExit_override = (\<lambda>S. None),
      Handle = door_Handle\<rparr>"

definition Door :: "door_state list" where
  "Door = [ClosedState, OpenState]"

text \<open>\<^verbatim>\<open>main\<close>, with the local \<^verbatim>\<open>door\<close> at address 0: the lines on \<^verbatim>\<open>std::cout\<close> when it
  returns.\<close>

definition door_main :: "failure + string list" where
  "door_main =
     and_then (StateMachine door_program Door 0 program_start) (\<lambda>h.
     and_then (Dispatch door_program Door (OpenEvent, ()) 0 h) (\<lambda>h.
     and_then (Dispatch door_program Door (CloseEvent, ()) 0 h) (\<lambda>h.
     and_then (GetCurrentStateName door_program 0 h) (\<lambda>name.
     Inr (cout h @ [name])))))"

subsection \<open>demos/tcp/main.cpp\<close>

datatype tcp_event =
    SynEvent | SynAckEvent | AckEvent | FinEvent | FinAckEvent | RstEvent | TimeoutEvent
  | ActiveOpenEvent | PassiveOpenEvent | SendDataEvent | CloseEvent

datatype tcp_state =
    ClosedState | ListenState | SynRcvdState | SynSentState | EstablishedState
  | FinWait1State | FinWait2State | ClosingState | TimeWaitState | CloseWaitState
  | LastAckState

text \<open>The \<^verbatim>\<open>Handle\<close> members, class by class.\<close>

definition tcp_Handle ::
  "tcp_state \<Rightarrow> tcp_event \<Rightarrow> (tcp_state directive \<times> (unit \<Rightarrow> unit member_function)) option" where
  "tcp_Handle S E =
     (case S of
        ClosedState \<Rightarrow>
          (case E of
             PassiveOpenEvent \<Rightarrow> Some (printing_Handle ''Got PassiveOpenEvent'' ListenState)
           | ActiveOpenEvent \<Rightarrow> Some (returns_TransitionTo SynSentState)
           | _ \<Rightarrow> None)
      | ListenState \<Rightarrow>
          (case E of
             SendDataEvent \<Rightarrow> Some (printing_Handle ''Sending data'' SynSentState)
           | SynEvent \<Rightarrow> Some (returns_TransitionTo SynRcvdState)
           | _ \<Rightarrow> None)
      | SynRcvdState \<Rightarrow>
          (case E of
             TimeoutEvent \<Rightarrow> Some (returns_TransitionTo ClosedState)
           | RstEvent \<Rightarrow> Some (returns_TransitionTo ListenState)
           | AckEvent \<Rightarrow> Some (returns_TransitionTo EstablishedState)
           | CloseEvent \<Rightarrow> Some (returns_TransitionTo FinWait1State)
           | _ \<Rightarrow> None)
      | SynSentState \<Rightarrow>
          (case E of
             CloseEvent \<Rightarrow> Some (returns_TransitionTo ClosedState)
           | SynEvent \<Rightarrow> Some (returns_TransitionTo SynRcvdState)
           | SynAckEvent \<Rightarrow> Some (printing_Handle ''Got synack'' EstablishedState)
           | _ \<Rightarrow> None)
      | EstablishedState \<Rightarrow>
          (case E of
             FinEvent \<Rightarrow> Some (FSM_TRANSITION CloseWaitState)
           | CloseEvent \<Rightarrow> Some (returns_TransitionTo FinWait1State)
           | _ \<Rightarrow> None)
      | FinWait1State \<Rightarrow>
          (case E of
             FinEvent \<Rightarrow> Some (returns_TransitionTo ClosingState)
           | AckEvent \<Rightarrow> Some (returns_TransitionTo FinWait2State)
           | FinAckEvent \<Rightarrow> Some (returns_TransitionTo TimeWaitState)
           | _ \<Rightarrow> None)
      | FinWait2State \<Rightarrow>
          (case E of FinEvent \<Rightarrow> Some (returns_TransitionTo TimeWaitState) | _ \<Rightarrow> None)
      | ClosingState \<Rightarrow>
          (case E of AckEvent \<Rightarrow> Some (returns_TransitionTo TimeWaitState) | _ \<Rightarrow> None)
      | TimeWaitState \<Rightarrow>
          (case E of TimeoutEvent \<Rightarrow> Some (returns_TransitionTo ClosedState) | _ \<Rightarrow> None)
      | CloseWaitState \<Rightarrow>
          (case E of CloseEvent \<Rightarrow> Some (returns_TransitionTo LastAckState) | _ \<Rightarrow> None)
      | LastAckState \<Rightarrow>
          (case E of AckEvent \<Rightarrow> Some (returns_TransitionTo ClosedState) | _ \<Rightarrow> None))"

text \<open>\<^verbatim>\<open>EstablishedState\<close> is the only class that overrides a hook; no class overrides
  \<^verbatim>\<open>Name\<close>.\<close>

definition tcp_OnStateEnter :: "tcp_state \<Rightarrow> unit member_function option" where
  "tcp_OnStateEnter S =
     (if S = EstablishedState then Some (\<lambda>d. (d, [''Entering EstablishedState''])) else None)"

definition tcp_program :: "(tcp_state, tcp_event, unit, unit) program" where
  "tcp_program =
     \<lparr>LIBFSM_DEBUG = False,
      derived_from_State = (\<lambda>S. True),
      derived_from_Event = (\<lambda>E. True),
      construct = (\<lambda>S. ()),
      Name_override = (\<lambda>S. None),
      OnStateEnter_override = tcp_OnStateEnter,
      OnStateExit_override = (\<lambda>S. None),
      Handle = tcp_Handle\<rparr>"

definition TcpStateMachine :: "tcp_state list" where
  "TcpStateMachine =
     [ClosedState, ListenState, SynRcvdState, SynSentState, EstablishedState, FinWait1State,
      FinWait2State, ClosingState, TimeWaitState, CloseWaitState, LastAckState]"

text \<open>\<^verbatim>\<open>main\<close>, with the local \<^verbatim>\<open>stateMachine\<close> at address 0: the memory after the last
  call.\<close>

definition tcp_main :: "failure + (tcp_state, unit) memory" where
  "tcp_main =
     and_then (StateMachine tcp_program TcpStateMachine 0 program_start) (\<lambda>h.
     and_then (Dispatch tcp_program TcpStateMachine (PassiveOpenEvent, ()) 0 h) (\<lambda>h.
     and_then (Dispatch tcp_program TcpStateMachine (SendDataEvent, ()) 0 h) (\<lambda>h.
     Dispatch tcp_program TcpStateMachine (SynAckEvent, ()) 0 h)))"

section \<open>Auxiliary facts\<close>

subsection \<open>The tuple and member calls\<close>

lemma filter_class_count:
  "length (filter (\<lambda>(T, d). T = S) al) = count_list (map fst al) S"
  by (induction al) auto

lemma counted_class_has_instance:
  assumes "count_list (map fst al) S = 1"
  shows "\<exists>d. map_of al S = Some d"
proof -
  have "S \<in> set (map fst al)"
    using assms count_notin [of S "map fst al"] by fastforce
  then have "map_of al S \<noteq> None"
    by (simp add: map_of_eq_None_iff)
  then show ?thesis by blast
qed

lemma update_instance_keys:
  assumes "map_of al S = Some d"
  shows "map fst (AList.update S v al) = map fst al"
proof -
  have "S \<in> fst ` set al"
    using assms by (meson domI domIff map_of_eq_None_iff)
  then show ?thesis by (simp add: update_keys)
qed

lemma call_member_instance:
  assumes "objects h a = Some m" and "map_of (states m) S = Some d"
  shows "call_member (AddressOf a S) f h =
           Inr (h\<lparr>objects := (objects h)(a \<mapsto> m\<lparr>states := AList.update S (fst (f d)) (states m)\<rparr>),
                  cout := cout h @ snd (f d)\<rparr>)"
  using assms by (simp add: call_member_def split: prod.splits)

lemma call_member_InrD:
  assumes "call_member p f h = Inr h'"
  shows "\<exists>a S m d. p = AddressOf a S \<and> objects h a = Some m \<and> map_of (states m) S = Some d \<and>
           h' = h\<lparr>objects := (objects h)(a \<mapsto> m\<lparr>states := AList.update S (fst (f d)) (states m)\<rparr>),
                   cout := cout h @ snd (f d)\<rparr>"
proof (cases p)
  case (nullptr S)
  with assms show ?thesis by (simp add: call_member_def)
next
  case (AddressOf a S)
  with assms show ?thesis
    by (auto simp: call_member_def split: option.splits prod.splits)
qed

lemma active_reference_valid_iff:
  "active_reference_valid States this h \<longleftrightarrow>
     (\<exists>m S. objects h this = Some m \<and> map fst (states m) = States \<and>
        currentState m = AddressOf this S \<and> count_list States S = 1)"
proof (cases "objects h this")
  case None
  then show ?thesis by (simp add: active_reference_valid_def)
next
  case (Some m)
  then show ?thesis
    by (cases "currentState m") (auto simp: active_reference_valid_def filter_class_count)
qed

lemma valid_active_instance:
  assumes "active_reference_valid States this h"
  shows "\<exists>m S d. objects h this = Some m \<and> map fst (states m) = States \<and>
           currentState m = AddressOf this S \<and> map_of (states m) S = Some d \<and>
           count_list States S = 1"
proof -
  from assms obtain m S where obj: "objects h this = Some m"
    and keys: "map fst (states m) = States"
    and cur: "currentState m = AddressOf this S" and one: "count_list States S = 1"
    by (auto simp: active_reference_valid_iff)
  from one keys have "count_list (map fst (states m)) S = 1" by simp
  from counted_class_has_instance [OF this] obtain d where "map_of (states m) S = Some d" ..
  with obj keys cur one show ?thesis by blast
qed

lemma machine_all_updated:
  "m\<lparr>currentState := p, fired := cs, states := al\<rparr> =
     \<lparr>states = al, currentState = p, fired = cs\<rparr>"
  by (cases m) simp

lemma Transition_result:
  assumes obj: "objects h this = Some m"
    and cur: "currentState m = AddressOf this S"
    and inst: "map_of (states m) S = Some d"
    and chk: "Transition_check C States X = None"
    and tgt: "map_of (AList.update S (fst (OnStateExit C S d)) (states m)) X = Some dX"
  shows "Transition C States X this h =
           Inr (h\<lparr>objects := (objects h)(this \<mapsto>
                    \<lparr>states = AList.update X (fst (OnStateEnter C X dX))
                                (AList.update S (fst (OnStateExit C S d)) (states m)),
                     currentState = AddressOf this X,
                     fired = fired m @ [Exited S, Entered X]\<rparr>),
                  cout := cout h @ snd (OnStateExit C S d) @ snd (OnStateEnter C X dX)\<rparr>)"
proof -
  let ?m0 = "m\<lparr>fired := fired m @ [Exited S]\<rparr>"
  let ?h0 = "h\<lparr>objects := (objects h)(this \<mapsto> ?m0)\<rparr>"
  have o0: "objects ?h0 this = Some ?m0" by simp
  have i0: "map_of (states ?m0) S = Some d" using inst by simp
  let ?m1 = "?m0\<lparr>states := AList.update S (fst (OnStateExit C S d)) (states m)\<rparr>"
  let ?h1 = "h\<lparr>objects := (objects h)(this \<mapsto> ?m1),
               cout := cout h @ snd (OnStateExit C S d)\<rparr>"
  have ex: "CallOnStateExit C this h = Inr ?h1"
    using obj cur call_member_instance [OF o0 i0, of "OnStateExit C S"]
    by (simp add: CallOnStateExit_def object_at_def)
  let ?m2 = "?m1\<lparr>currentState := AddressOf this X, fired := fired m @ [Exited S, Entered X]\<rparr>"
  let ?h2 = "?h1\<lparr>objects := (objects ?h1)(this \<mapsto> ?m2)\<rparr>"
  have o2: "objects ?h2 this = Some ?m2" by simp
  have i2: "map_of (states ?m2) X = Some dX" using tgt by simp
  have en: "CallOnStateEnter C this
              (?h1\<lparr>objects := (objects ?h1)(this \<mapsto> ?m1\<lparr>currentState := AddressOf this X\<rparr>)\<rparr>) =
      Inr (h\<lparr>objects := (objects h)(this \<mapsto>
                    \<lparr>states = AList.update X (fst (OnStateEnter C X dX))
                                (AList.update S (fst (OnStateExit C S d)) (states m)),
                     currentState = AddressOf this X,
                     fired = fired m @ [Exited S, Entered X]\<rparr>),
                  cout := cout h @ snd (OnStateExit C S d) @ snd (OnStateEnter C X dX)\<rparr>)"
    using call_member_instance [OF o2 i2, of "OnStateEnter C X"]
    by (simp add: CallOnStateEnter_def object_at_def machine_all_updated)
  show ?thesis
    using chk ex en by (simp add: Transition_def object_at_def)
qed

lemma valid_target_instance:
  assumes keys: "map fst (states m) = States"
    and inst: "map_of (states m) S = Some d"
    and chk: "Transition_check C States X = None"
  shows "\<exists>dX. map_of (AList.update S v (states m)) X = Some dX"
proof -
  have "count_list States X = 1"
    using chk by (simp add: Transition_check_def split: if_splits)
  moreover have "map fst (AList.update S v (states m)) = States"
    using keys update_instance_keys [OF inst] by simp
  ultimately show ?thesis
    using counted_class_has_instance [of "AList.update S v (states m)" X] by simp
qed

subsection \<open>The active reference is kept, and what a call on a valid machine returns\<close>

lemma valid_call_member:
  assumes valid: "active_reference_valid States this h" and call: "call_member p f h = Inr h'"
  shows "active_reference_valid States this h'"
proof -
  from call_member_InrD [OF call] obtain a S m d where
    obj: "objects h a = Some m" and inst: "map_of (states m) S = Some d" and
    h': "h' = h\<lparr>objects := (objects h)(a \<mapsto> m\<lparr>states := AList.update S (fst (f d)) (states m)\<rparr>),
                 cout := cout h @ snd (f d)\<rparr>"
    by blast
  show ?thesis
  proof (cases "a = this")
    case True
    with valid obj update_instance_keys [OF inst] show ?thesis
      by (auto simp: active_reference_valid_iff h')
  next
    case False
    with valid show ?thesis
      by (auto simp: active_reference_valid_iff h')
  qed
qed

lemma valid_StateMachine:
  assumes "StateMachine C States this h0 = Inr h"
  shows "active_reference_valid States this h"
proof (cases States)
  case Nil
  with assms show ?thesis by (simp add: StateMachine_def split: if_splits)
next
  case (Cons S0 Ss)
  with assms have "count_list States S0 = 1"
    and "h = h0\<lparr>objects := (objects h0)(this \<mapsto>
              \<lparr>states = map (\<lambda>S. (S, construct C S)) States, currentState = AddressOf this S0,
               fired = []\<rparr>)\<rparr>"
    by (auto simp: StateMachine_def split: if_splits)
  then show ?thesis
    by (simp add: active_reference_valid_iff comp_def)
qed

lemma Transition_valid_result:
  assumes valid: "active_reference_valid States this h"
    and chk: "Transition_check C States X = None"
  shows "\<exists>m S d dX.
           objects h this = Some m \<and> currentState m = AddressOf this S \<and>
           map_of (states m) S = Some d \<and>
           (if X = S then dX = fst (OnStateExit C S d) else map_of (states m) X = Some dX) \<and>
           map fst (AList.update X (fst (OnStateEnter C X dX))
                      (AList.update S (fst (OnStateExit C S d)) (states m))) = States \<and>
           Transition C States X this h =
             Inr (h\<lparr>objects := (objects h)(this \<mapsto>
                      \<lparr>states = AList.update X (fst (OnStateEnter C X dX))
                                  (AList.update S (fst (OnStateExit C S d)) (states m)),
                       currentState = AddressOf this X,
                       fired = fired m @ [Exited S, Entered X]\<rparr>),
                    cout := cout h @ snd (OnStateExit C S d) @ snd (OnStateEnter C X dX)\<rparr>)"
proof -
  from valid_active_instance [OF valid] obtain m S d where
    obj: "objects h this = Some m" and keys: "map fst (states m) = States" and
    cur: "currentState m = AddressOf this S" and inst: "map_of (states m) S = Some d"
    by blast
  let ?exited = "AList.update S (fst (OnStateExit C S d)) (states m)"
  from valid_target_instance [OF keys inst chk] obtain dX where
    tgt: "map_of ?exited X = Some dX" by blast
  have which: "if X = S then dX = fst (OnStateExit C S d) else map_of (states m) X = Some dX"
    using tgt by (simp add: update_conv' split: if_splits)
  have keys': "map fst (AList.update X (fst (OnStateEnter C X dX)) ?exited) = States"
    using keys update_instance_keys [OF inst] update_instance_keys [OF tgt] by simp
  from obj cur inst which keys' Transition_result [OF obj cur inst chk tgt]
  show ?thesis by blast
qed

lemma valid_Transition:
  assumes valid: "active_reference_valid States this h"
    and tr: "Transition C States X this h = Inr h'"
  shows "active_reference_valid States this h'"
proof -
  from tr have chk: "Transition_check C States X = None"
    by (simp add: Transition_def split: option.splits)
  then have X: "count_list States X = 1"
    by (simp add: Transition_check_def split: if_splits)
  from Transition_valid_result [OF valid chk] tr X show ?thesis
    by (auto simp: active_reference_valid_iff)
qed

lemma valid_Execute:
  assumes "active_reference_valid States this h" and "Execute C States dir this h = Inr h'"
  shows "active_reference_valid States this h'"
proof (cases dir)
  case NullTransition
  with assms show ?thesis by (auto simp: active_reference_valid_iff)
next
  case (TransitionTo X)
  with assms show ?thesis by (auto split: if_splits intro: valid_Transition)
qed

lemma valid_InvokeHandle:
  assumes "active_reference_valid States this h"
    and "InvokeHandle C p event h = Inr (dir, h1)"
  shows "active_reference_valid States this h1"
proof (cases "Handle C (pointee p) (fst event)")
  case None
  with assms show ?thesis by (simp add: InvokeHandle_def)
next
  case (Some b)
  obtain dir' body where b: "b = (dir', body)" by (cases b)
  from assms(2) Some b obtain h2 where "call_member p (body (snd event)) h = Inr h2" and "h1 = h2"
    by (cases "call_member p (body (snd event)) h") (auto simp: InvokeHandle_def)
  with assms(1) show ?thesis by (auto intro: valid_call_member)
qed

lemma valid_Dispatch:
  assumes valid: "active_reference_valid States this h"
    and "Dispatch C States event this h = Inr h'"
  shows "active_reference_valid States this h'"
proof -
  from valid obtain m where obj: "objects h this = Some m"
    by (auto simp: active_reference_valid_iff)
  with assms(2) obtain dir h1 where
    ih: "InvokeHandle C (currentState m) event h = Inr (dir, h1)" and
    ex: "Execute C States dir this h1 = Inr h'"
    by (cases "InvokeHandle C (currentState m) event h")
       (auto simp: Dispatch_def object_at_def split: option.splits)
  from valid_Execute [OF valid_InvokeHandle [OF valid ih] ex] show ?thesis .
qed

lemma reachable_valid:
  assumes "reachable C States this h"
  shows "active_reference_valid States this h"
  using assms
proof (induction rule: reachable.induct)
  case (constructed h0 h)
  then show ?case by (rule valid_StateMachine)
next
  case (dispatched h event h')
  then show ?case by (blast intro: valid_Dispatch)
next
  case (transitioned h State h')
  then show ?case by (blast intro: valid_Transition)
qed

lemma Dispatch_check_NoneD:
  assumes "Dispatch_check C States E = None" and "S \<in> set States"
  shows "Execute_check C States (InvokeHandle_type C S E) = None"
proof -
  let ?f = "\<lambda>S. Execute_check C States (InvokeHandle_type C S E)"
  from assms(1) have "List.map_filter ?f States = []"
    by (simp add: Dispatch_check_def split: if_splits list.splits)
  then have "filter (\<lambda>S. ?f S \<noteq> None) States = []"
    by (simp add: List.map_filter_def)
  with assms(2) show ?thesis
    by (simp add: filter_empty_conv)
qed

lemma Execute_valid_result:
  assumes valid: "active_reference_valid States this h"
    and obj: "objects h this = Some m"
    and cur: "currentState m = AddressOf this S"
    and chk: "Execute_check C States dir = None"
  shows "\<exists>h' m'. Execute C States dir this h = Inr h' \<and> objects h' this = Some m' \<and>
           currentState m' =
             AddressOf this (case dir of NullTransition \<Rightarrow> S | TransitionTo X \<Rightarrow> X)"
proof (cases dir)
  case NullTransition
  with obj cur show ?thesis by simp
next
  case (TransitionTo X)
  with chk have der: "IsDerivedFromState C [X]" and tc: "Transition_check C States X = None"
    by (simp_all split: if_splits)
  from Transition_valid_result [OF valid tc] der TransitionTo show ?thesis
    by auto
qed

lemma Dispatch_valid_result:
  assumes valid: "active_reference_valid States this h"
    and obj: "objects h this = Some m"
    and cur: "currentState m = AddressOf this S"
    and chk: "Dispatch_check C States E = None"
  shows "\<exists>h1 h' m'.
           InvokeHandle C (currentState m) (E, p) h = Inr (InvokeHandle_type C S E, h1) \<and>
           Dispatch C States (E, p) this h = Inr h' \<and> objects h' this = Some m' \<and>
           currentState m' =
             AddressOf this (case InvokeHandle_type C S E of
                               NullTransition \<Rightarrow> S | TransitionTo X \<Rightarrow> X)"
proof -
  from valid_active_instance [OF valid] obj cur obtain d where
    inst: "map_of (states m) S = Some d" and one: "count_list States S = 1"
    by auto
  from one have "S \<in> set States"
    using count_notin [of S States] by fastforce
  from Dispatch_check_NoneD [OF chk this]
  have ec: "Execute_check C States (InvokeHandle_type C S E) = None" .
  have "\<exists>h1 m1. InvokeHandle C (currentState m) (E, p) h = Inr (InvokeHandle_type C S E, h1) \<and>
          active_reference_valid States this h1 \<and> objects h1 this = Some m1 \<and>
          currentState m1 = AddressOf this S"
  proof (cases "Handle C S E")
    case None
    with valid obj cur show ?thesis by (simp add: InvokeHandle_def InvokeHandle_type_def)
  next
    case (Some b)
    obtain dir body where b: "b = (dir, body)" by (cases b)
    let ?h1 = "h\<lparr>objects := (objects h)(this \<mapsto>
                   m\<lparr>states := AList.update S (fst (body p d)) (states m)\<rparr>),
                 cout := cout h @ snd (body p d)\<rparr>"
    have cm: "call_member (AddressOf this S) (body p) h = Inr ?h1"
      by (rule call_member_instance [OF obj inst])
    from valid_call_member [OF valid cm] have "active_reference_valid States this ?h1" .
    with cm Some b cur show ?thesis
      by (simp add: InvokeHandle_def InvokeHandle_type_def)
  qed
  then obtain h1 m1 where
    ih: "InvokeHandle C (currentState m) (E, p) h = Inr (InvokeHandle_type C S E, h1)"
    and v1: "active_reference_valid States this h1" and o1: "objects h1 this = Some m1"
    and c1: "currentState m1 = AddressOf this S"
    by blast
  from Execute_valid_result [OF v1 o1 c1 ec] obtain h' m' where
    "Execute C States (InvokeHandle_type C S E) this h1 = Inr h'"
    "objects h' this = Some m'"
    "currentState m' =
       AddressOf this (case InvokeHandle_type C S E of NullTransition \<Rightarrow> S | TransitionTo X \<Rightarrow> X)"
    by blast
  with ih chk obj show ?thesis by (simp add: Dispatch_def object_at_def)
qed

lemma reachable_built:
  assumes "reachable C States this h"
  shows "\<exists>h0 h1. StateMachine C States this h0 = Inr h1"
  using assms by (induction rule: reachable.induct) auto

lemma built_IsDerivedFromState:
  assumes "StateMachine C States this h0 = Inr h1" and "S \<in> set States"
  shows "IsDerivedFromState C [S]"
  using assms
  by (auto simp: StateMachine_def IsDerivedFromState_def list_all_iff split: if_splits)

subsection \<open>The test fixture, evaluated\<close>

lemma test_constructed:
  "StateMachine test_program test_StateMachine 0 program_start =
     Inr \<lparr>objects = (\<lambda>a. None)(0 \<mapsto>
            \<lparr>states = [(State1, ()), (State2, ())], currentState = AddressOf 0 State1,
             fired = []\<rparr>),
          cout = []\<rparr>"
  by (simp add: StateMachine_def test_program_def test_StateMachine_def IsDerivedFromState_def
      program_start_def)

lemma test_Dispatch_check: "Dispatch_check test_program test_StateMachine E = None"
  by (cases E)
     (simp_all add: Dispatch_check_def IsDerivedFromEvent_def test_program_def
        test_StateMachine_def List.map_filter_def InvokeHandle_type_def
        returns_TransitionTo_def Transition_check_def IsDerivedFromState_def)

lemma test_Transition_check: "Transition_check test_program test_StateMachine S = None"
  by (cases S)
     (simp_all add: Transition_check_def test_StateMachine_def test_program_def
        IsDerivedFromState_def)

lemma test_DispatchSingle:
  "Dispatch test_program test_StateMachine (Event1, ()) 0
     \<lparr>objects = (\<lambda>a. None)(0 \<mapsto>
        \<lparr>states = [(State1, ()), (State2, ())], currentState = AddressOf 0 State1,
         fired = []\<rparr>),
      cout = []\<rparr> =
   Inr \<lparr>objects = (\<lambda>a. None)(0 \<mapsto>
          \<lparr>states = [(State1, ()), (State2, ())], currentState = AddressOf 0 State2,
           fired = [Exited State1, Entered State2]\<rparr>),
        cout = []\<rparr>"
  by (simp add: Dispatch_def Dispatch_check_def IsDerivedFromEvent_def test_program_def
      test_StateMachine_def List.map_filter_def InvokeHandle_type_def
      returns_TransitionTo_def Transition_check_def IsDerivedFromState_def InvokeHandle_def
      call_member_def Transition_def CallOnStateExit_def CallOnStateEnter_def
      OnStateExit_def OnStateEnter_def State_OnStateExit_def State_OnStateEnter_def
      object_at_def)

lemma test_valid_constructed:
  "active_reference_valid test_StateMachine 0
     \<lparr>objects = (\<lambda>a. None)(0 \<mapsto>
        \<lparr>states = [(State1, ()), (State2, ())], currentState = AddressOf 0 State1,
         fired = []\<rparr>),
      cout = []\<rparr>"
  by (simp add: active_reference_valid_def test_StateMachine_def)

subsection \<open>The tcp demo, evaluated\<close>

text \<open>The machine of the tcp demo, as constructed.\<close>

lemma tcp_constructed:
  "StateMachine tcp_program TcpStateMachine 0 program_start =
     Inr \<lparr>objects = (\<lambda>a. None)(0 \<mapsto>
            \<lparr>states = map (\<lambda>S. (S, ())) TcpStateMachine,
             currentState = AddressOf 0 ClosedState, fired = []\<rparr>),
          cout = []\<rparr>"
  by (simp add: StateMachine_def tcp_program_def TcpStateMachine_def IsDerivedFromState_def
      program_start_def)

subsection \<open>The implicit copy constructor\<close>

text \<open>The copy of a machine with a valid active reference, made anywhere else, has an
  active reference into the source's tuple.\<close>

lemma StateMachine_copy_points_into_source:
  assumes valid: "active_reference_valid States other h" and "this \<noteq> other"
  shows "\<exists>h' m S. StateMachine_copy this other h = Inr h' \<and> objects h' this = Some m \<and>
           currentState m = AddressOf other S \<and> \<not> active_reference_valid States this h'"
proof -
  from valid_active_instance [OF valid] obtain m S where
    "objects h other = Some m" and "currentState m = AddressOf other S"
    by blast
  with assms(2) show ?thesis
    by (simp add: StateMachine_copy_def object_at_def active_reference_valid_def)
qed

section \<open>The claims\<close>

text \<open>
  C1. Executing \<^verbatim>\<open>TransitionTo<X>\<close> is calling \<^verbatim>\<open>Transition<X>()\<close>, and on a machine whose
  active reference points at its own state object of class \<open>S\<close>, for a declared target
  \<open>X\<close>, that call does three things in order: it calls \<^verbatim>\<open>OnStateExit\<close> on the active
  object, it makes the active reference the address of the element of class \<open>X\<close> of the
  machine's tuple (no element is added, removed or constructed anew), and it calls
  \<^verbatim>\<open>OnStateEnter\<close> on that element. The hooks fired are exactly the exit of \<open>S\<close> followed by
  the entry of \<open>X\<close>; when \<open>X = S\<close> both are called once, in that order, on the same object:
  the entry hook gets the member data the exit hook left. No other machine object
  changes.
\<close>

theorem TransitionTo_exit_switch_enter:
  assumes valid: "active_reference_valid States this h"
    and obj: "objects h this = Some m"
    and cur: "currentState m = AddressOf this S"
    and inst: "map_of (states m) S = Some d"
    and chk: "Transition_check C States X = None"
  shows "\<exists>dX.
           (if X = S then dX = fst (OnStateExit C S d) else map_of (states m) X = Some dX) \<and>
           Transition C States X this h =
             Inr (h\<lparr>objects := (objects h)(this \<mapsto>
                      \<lparr>states = AList.update X (fst (OnStateEnter C X dX))
                                  (AList.update S (fst (OnStateExit C S d)) (states m)),
                       currentState = AddressOf this X,
                       fired = fired m @ [Exited S, Entered X]\<rparr>),
                    cout := cout h @ snd (OnStateExit C S d) @ snd (OnStateEnter C X dX)\<rparr>) \<and>
           map fst (AList.update X (fst (OnStateEnter C X dX))
                      (AList.update S (fst (OnStateExit C S d)) (states m))) = States \<and>
           Execute C States (TransitionTo X) this h = Transition C States X this h"
proof -
  have der: "IsDerivedFromState C [X]"
    using chk by (simp add: Transition_check_def split: if_splits)
  from Transition_valid_result [OF valid chk, of] obj cur inst der
  show ?thesis by auto
qed

theorem TransitionTo_exit_switch_enter_witness:
  "active_reference_valid test_StateMachine 0
     \<lparr>objects = (\<lambda>a. None)(0 \<mapsto>
        \<lparr>states = [(State1, ()), (State2, ())], currentState = AddressOf 0 State1,
         fired = []\<rparr>),
      cout = []\<rparr> \<and>
   Transition_check test_program test_StateMachine State1 = None \<and>
   Execute test_program test_StateMachine (TransitionTo State1) 0
     \<lparr>objects = (\<lambda>a. None)(0 \<mapsto>
        \<lparr>states = [(State1, ()), (State2, ())], currentState = AddressOf 0 State1,
         fired = []\<rparr>),
      cout = []\<rparr> =
   Inr \<lparr>objects = (\<lambda>a. None)(0 \<mapsto>
          \<lparr>states = [(State1, ()), (State2, ())], currentState = AddressOf 0 State1,
           fired = [Exited State1, Entered State1]\<rparr>),
        cout = []\<rparr>"
proof -
  let ?m = "\<lparr>states = [(State1, ()), (State2, ())], currentState = AddressOf 0 State1,
             fired = []\<rparr> :: (test_state, unit) machine"
  let ?h = "\<lparr>objects = (\<lambda>a. None)(0 \<mapsto> ?m), cout = []\<rparr>"
  have valid: "active_reference_valid test_StateMachine 0 ?h"
    by (rule test_valid_constructed)
  have obj: "objects ?h 0 = Some ?m" by simp
  have cur: "currentState ?m = AddressOf 0 State1" by simp
  have inst: "map_of (states ?m) State1 = Some ()" by simp
  have chk: "Transition_check test_program test_StateMachine State1 = None"
    by (rule test_Transition_check)
  from TransitionTo_exit_switch_enter [OF valid obj cur inst chk]
  show ?thesis
    using valid chk
    by (auto simp: OnStateExit_def OnStateEnter_def State_OnStateExit_def
        State_OnStateEnter_def test_program_def)
qed

text \<open>
  C2. When the class of the active state has no \<^verbatim>\<open>Handle\<close> member for the class of the
  event, in a program where \<^verbatim>\<open>Dispatch\<close> for that event class builds, the directive is
  \<^verbatim>\<open>NullTransition\<close> and \<^verbatim>\<open>Dispatch\<close> returns normally: the active reference, every state
  object, the current state's name and the hooks fired are what they were; nothing but
  the debug line, when \<^verbatim>\<open>LIBFSM_DEBUG\<close> is defined, distinguishes the memory after from the
  memory before.
\<close>

theorem Dispatch_unhandled_event:
  assumes "objects h this = Some m"
    and "Handle C (pointee (currentState m)) E = None"
    and "Dispatch_check C States E = None"
  shows "InvokeHandle_type C (pointee (currentState m)) E = NullTransition \<and>
         Dispatch C States (E, p) this h =
           Inr (if LIBFSM_DEBUG C then h\<lparr>cout := cout h @ [''Called Null Transition'']\<rparr>
                else h) \<and>
         (\<exists>h'. Dispatch C States (E, p) this h = Inr h' \<and>
            objects h' = objects h \<and>
            (\<exists>m'. objects h' this = Some m' \<and>
               currentState m' = currentState m \<and> states m' = states m \<and>
               fired m' = fired m) \<and>
            GetCurrentStateName C this h' = GetCurrentStateName C this h)"
proof -
  have "Dispatch C States (E, p) this h =
      Inr (if LIBFSM_DEBUG C then h\<lparr>cout := cout h @ [''Called Null Transition'']\<rparr> else h)"
    using assms by (simp add: Dispatch_def InvokeHandle_def object_at_def)
  moreover have "GetCurrentStateName C this (h\<lparr>cout := cout h @ [''Called Null Transition'']\<rparr>) =
      GetCurrentStateName C this h"
    using assms(1)
    by (cases "currentState m") (simp_all add: GetCurrentStateName_def object_at_def)
  ultimately show ?thesis
    using assms(1,2) by (simp add: InvokeHandle_type_def)
qed

theorem Dispatch_unhandled_event_witness:
  "Handle test_program State1 Event2 = None \<and>
   Dispatch_check test_program test_StateMachine Event2 = None \<and>
   Dispatch test_program test_StateMachine (Event2, ()) 0
     \<lparr>objects = (\<lambda>a. None)(0 \<mapsto>
        \<lparr>states = [(State1, ()), (State2, ())], currentState = AddressOf 0 State1,
         fired = []\<rparr>),
      cout = []\<rparr> =
   Inr \<lparr>objects = (\<lambda>a. None)(0 \<mapsto>
          \<lparr>states = [(State1, ()), (State2, ())], currentState = AddressOf 0 State1,
           fired = []\<rparr>),
        cout = []\<rparr>"
proof -
  let ?m = "\<lparr>states = [(State1, ()), (State2, ())], currentState = AddressOf 0 State1,
             fired = []\<rparr> :: (test_state, unit) machine"
  let ?h = "\<lparr>objects = (\<lambda>a. None)(0 \<mapsto> ?m), cout = []\<rparr>"
  have obj: "objects ?h 0 = Some ?m" by simp
  have none: "Handle test_program (pointee (currentState ?m)) Event2 = None"
    by (simp add: test_program_def)
  have chk: "Dispatch_check test_program test_StateMachine Event2 = None"
    by (rule test_Dispatch_check)
  from Dispatch_unhandled_event [OF obj none chk, of "()"]
  show ?thesis
    using none chk by (simp add: test_program_def)
qed

text \<open>
  C3. A machine over the classes \<open>S1, ..., Sn\<close>, \<open>n \<ge> 1\<close>, that has just been constructed
  holds one value-initialised state object per declared class, in declaration order; its
  active reference is the address of its own object of the first class, so
  \<^verbatim>\<open>GetCurrentStateName\<close> returns that object's name; and no hook has been called.
\<close>

theorem StateMachine_initial_state:
  assumes "StateMachine C (S1 # Ss) this h0 = Inr h"
  shows "\<exists>m. objects h this = Some m \<and>
           states m = map (\<lambda>S. (S, construct C S)) (S1 # Ss) \<and>
           length (states m) = length (S1 # Ss) \<and>
           currentState m = AddressOf this S1 \<and>
           deref (currentState m) h = Inr (construct C S1) \<and>
           GetCurrentStateName C this h = Inr (Name C S1 (construct C S1)) \<and>
           fired m = [] \<and> cout h = cout h0"
proof -
  from assms have h: "h = h0\<lparr>objects := (objects h0)(this \<mapsto>
      \<lparr>states = map (\<lambda>S. (S, construct C S)) (S1 # Ss),
       currentState = AddressOf this S1, fired = []\<rparr>)\<rparr>"
    by (simp add: StateMachine_def split: if_splits)
  show ?thesis
    by (simp add: h GetCurrentStateName_def object_at_def)
qed

theorem StateMachine_initial_state_witness:
  "StateMachine test_program (State1 # [State2]) 0 program_start =
     Inr \<lparr>objects = (\<lambda>a. None)(0 \<mapsto>
            \<lparr>states = [(State1, ()), (State2, ())], currentState = AddressOf 0 State1,
             fired = []\<rparr>),
          cout = []\<rparr> \<and>
   GetCurrentStateName test_program 0
     \<lparr>objects = (\<lambda>a. None)(0 \<mapsto>
        \<lparr>states = [(State1, ()), (State2, ())], currentState = AddressOf 0 State1,
         fired = []\<rparr>),
      cout = []\<rparr> = Inr ''State1''"
proof -
  have built: "StateMachine test_program (State1 # [State2]) 0 program_start =
     Inr \<lparr>objects = (\<lambda>a. None)(0 \<mapsto>
            \<lparr>states = [(State1, ()), (State2, ())], currentState = AddressOf 0 State1,
             fired = []\<rparr>),
          cout = []\<rparr>"
    using test_constructed by (simp add: test_StateMachine_def)
  from StateMachine_initial_state [OF built]
  show ?thesis
    using built by (simp add: Name_def test_program_def)
qed

text \<open>
  C4. The active reference of a machine should always be the address of one of the state
  objects that machine owns. A default-constructed machine has that, and \<^verbatim>\<open>Dispatch\<close> and
  \<^verbatim>\<open>Transition\<close> keep it (\<open>valid_StateMachine\<close>, \<open>valid_Dispatch\<close>, \<open>valid_Transition\<close>), while
  \<^verbatim>\<open>GetCurrentStateName\<close> changes nothing. A machine made by the implicit copy constructor
  does not have it. For the test fixture's machine type, \<^verbatim>\<open>StateMachine a; StateMachine b = a;\<close>
  with \<open>a\<close> at address 0 and \<open>b\<close> at address 1: the active reference of \<open>a\<close> is valid; the
  active reference of \<open>b\<close> is the address of the \<^verbatim>\<open>State1\<close> object of \<open>a\<close>, not of its own;
  and once \<open>a\<close> is gone, \<^verbatim>\<open>b.GetCurrentStateName()\<close> reads through a dangling pointer.
\<close>

theorem copied_machine_active_reference:
  "StateMachine test_program test_StateMachine 0 program_start =
     Inr \<lparr>objects = (\<lambda>a. None)(0 \<mapsto>
            \<lparr>states = [(State1, ()), (State2, ())], currentState = AddressOf 0 State1,
             fired = []\<rparr>),
          cout = []\<rparr> \<and>
   active_reference_valid test_StateMachine 0
     \<lparr>objects = (\<lambda>a. None)(0 \<mapsto>
        \<lparr>states = [(State1, ()), (State2, ())], currentState = AddressOf 0 State1,
         fired = []\<rparr>),
      cout = []\<rparr> \<and>
   StateMachine_copy 1 0
     \<lparr>objects = (\<lambda>a. None)(0 \<mapsto>
        \<lparr>states = [(State1, ()), (State2, ())], currentState = AddressOf 0 State1,
         fired = []\<rparr>),
      cout = []\<rparr> =
     Inr \<lparr>objects = (\<lambda>a. None)
            (0 \<mapsto> \<lparr>states = [(State1, ()), (State2, ())],
                   currentState = AddressOf 0 State1, fired = []\<rparr>,
             1 \<mapsto> \<lparr>states = [(State1, ()), (State2, ())],
                   currentState = AddressOf 0 State1, fired = []\<rparr>),
          cout = []\<rparr> \<and>
   \<not> active_reference_valid test_StateMachine 1
     \<lparr>objects = (\<lambda>a. None)
        (0 \<mapsto> \<lparr>states = [(State1, ()), (State2, ())],
               currentState = AddressOf 0 State1, fired = []\<rparr>,
         1 \<mapsto> \<lparr>states = [(State1, ()), (State2, ())],
               currentState = AddressOf 0 State1, fired = []\<rparr>),
      cout = []\<rparr> \<and>
   GetCurrentStateName test_program 1
     (StateMachine_destroy 0
        \<lparr>objects = (\<lambda>a. None)
           (0 \<mapsto> \<lparr>states = [(State1, ()), (State2, ())],
                  currentState = AddressOf 0 State1, fired = []\<rparr>,
            1 \<mapsto> \<lparr>states = [(State1, ()), (State2, ())],
                  currentState = AddressOf 0 State1, fired = []\<rparr>),
         cout = []\<rparr>) = Inl DanglingPointer"
proof -
  let ?a = "\<lparr>states = [(State1, ()), (State2, ())], currentState = AddressOf 0 State1,
             fired = []\<rparr> :: (test_state, unit) machine"
  let ?h1 = "\<lparr>objects = (\<lambda>a. None)(0 \<mapsto> ?a, 1 \<mapsto> ?a), cout = []\<rparr>"
  have copied: "StateMachine_copy 1 0 \<lparr>objects = (\<lambda>a. None)(0 \<mapsto> ?a), cout = []\<rparr> = Inr ?h1"
    by (simp add: StateMachine_copy_def object_at_def)
  have not_own: "\<not> active_reference_valid test_StateMachine 1 ?h1"
    by (simp add: active_reference_valid_def)
  have dangling: "GetCurrentStateName test_program 1 (StateMachine_destroy 0 ?h1) =
      Inl DanglingPointer"
    by (simp add: StateMachine_destroy_def GetCurrentStateName_def object_at_def)
  from test_constructed test_valid_constructed copied not_own dangling
  show ?thesis by blast
qed

text \<open>
  C5. In every memory a program can reach from a default-constructed machine,
  \<^verbatim>\<open>GetCurrentStateName\<close> returns what the virtual \<^verbatim>\<open>Name\<close> member of the active state object
  returns: the value of the class's override on that object's member data when the class
  has one, and the base class's string when it has none. The class held by the variant
  selects the object and nothing else.
\<close>

theorem GetCurrentStateName_calls_Name:
  assumes "reachable C States this h"
  shows "\<exists>m S d. objects h this = Some m \<and> currentState m = AddressOf this S \<and>
           map_of (states m) S = Some d \<and>
           GetCurrentStateName C this h =
             Inr (case Name_override C S of None \<Rightarrow> ''<Unnamed State>'' | Some f \<Rightarrow> f d)"
proof -
  from valid_active_instance [OF reachable_valid [OF assms]] obtain m S d where
    "objects h this = Some m" and "currentState m = AddressOf this S"
    and "map_of (states m) S = Some d"
    by blast
  then show ?thesis
    by (auto simp: GetCurrentStateName_def object_at_def Name_def State_Name_def
        split: option.splits)
qed

theorem GetCurrentStateName_calls_Name_witness:
  "reachable test_program test_StateMachine 0
     \<lparr>objects = (\<lambda>a. None)(0 \<mapsto>
        \<lparr>states = [(State1, ()), (State2, ())], currentState = AddressOf 0 State2,
         fired = [Exited State1, Entered State2]\<rparr>),
      cout = []\<rparr> \<and>
   GetCurrentStateName test_program 0
     \<lparr>objects = (\<lambda>a. None)(0 \<mapsto>
        \<lparr>states = [(State1, ()), (State2, ())], currentState = AddressOf 0 State2,
         fired = [Exited State1, Entered State2]\<rparr>),
      cout = []\<rparr> = Inr ''State2''"
proof -
  let ?h1 = "\<lparr>objects = (\<lambda>a. None)(0 \<mapsto>
        \<lparr>states = [(State1, ()), (State2, ())], currentState = AddressOf 0 State2,
         fired = [Exited State1, Entered State2]\<rparr>),
      cout = []\<rparr> :: (test_state, unit) memory"
  have reach: "reachable test_program test_StateMachine 0 ?h1"
    by (rule reachable.dispatched
          [OF reachable.constructed [OF test_constructed] test_DispatchSingle])
  from GetCurrentStateName_calls_Name [OF reach]
  show ?thesis
    using reach by (auto simp: test_program_def)
qed

text \<open>
  C6. \<^verbatim>\<open>Transition<X>()\<close> is what executing \<^verbatim>\<open>TransitionTo<X>\<close> does. For a class \<open>X\<close> that
  is not among the machine's declared classes the call does not build, whatever the
  machine and the memory: \<^verbatim>\<open>std::get<X>(states)\<close> is ill-formed (or the \<^verbatim>\<open>static_assert\<close>
  fails first). For a class declared once, on every machine the program can reach, the
  call returns normally and its result is this: the exit hook of the active state's class
  has run on the active state object, the active reference is the address of the
  machine's own object of class \<open>X\<close>, the entry hook of \<open>X\<close> has run on that object after
  the exit hook, what the two hooks wrote is on \<^verbatim>\<open>std::cout\<close> in that order, and nothing
  else has changed. A call on a reachable machine has no failure but a build-time one.
\<close>

theorem Transition_build_time_checked:
  "Execute C States (TransitionTo X) this h = Transition C States X this h \<and>
   (X \<notin> set States \<longrightarrow>
      (\<exists>f. build_time f \<and> (\<forall>a n. Transition C States X a n = Inl f))) \<and>
   (reachable C States this h \<and> count_list States X = 1 \<longrightarrow>
      (\<exists>m S d dX.
         objects h this = Some m \<and> currentState m = AddressOf this S \<and>
         map_of (states m) S = Some d \<and>
         (if X = S then dX = fst (OnStateExit C S d) else map_of (states m) X = Some dX) \<and>
         Transition C States X this h =
           Inr (h\<lparr>objects := (objects h)(this \<mapsto>
                    \<lparr>states = AList.update X (fst (OnStateEnter C X dX))
                                (AList.update S (fst (OnStateExit C S d)) (states m)),
                     currentState = AddressOf this X,
                     fired = fired m @ [Exited S, Entered X]\<rparr>),
                  cout := cout h @ snd (OnStateExit C S d) @ snd (OnStateEnter C X dX)\<rparr>))) \<and>
   (reachable C States this h \<longrightarrow>
      (\<forall>f. Transition C States X this h = Inl f \<longrightarrow> build_time f))"
proof -
  have same: "Execute C States (TransitionTo X) this h = Transition C States X this h"
    by (simp add: Transition_def Transition_check_def)
  have undeclared: "\<exists>f. build_time f \<and> (\<forall>a n. Transition C States X a n = Inl f)"
    if "X \<notin> set States"
  proof (cases "IsDerivedFromState C [X]")
    case True
    with that have "\<forall>a n. Transition C States X a n = Inl IllFormed"
      by (simp add: Transition_def Transition_check_def)
    then show ?thesis by (intro exI [of _ IllFormed]) simp
  next
    case False
    then have "\<forall>a n. Transition C States X a n = Inl StaticAssertFailed"
      by (simp add: Transition_def Transition_check_def)
    then show ?thesis by (intro exI [of _ StaticAssertFailed]) simp
  qed
  have declared: "\<exists>m S d dX.
         objects h this = Some m \<and> currentState m = AddressOf this S \<and>
         map_of (states m) S = Some d \<and>
         (if X = S then dX = fst (OnStateExit C S d) else map_of (states m) X = Some dX) \<and>
         Transition C States X this h =
           Inr (h\<lparr>objects := (objects h)(this \<mapsto>
                    \<lparr>states = AList.update X (fst (OnStateEnter C X dX))
                                (AList.update S (fst (OnStateExit C S d)) (states m)),
                     currentState = AddressOf this X,
                     fired = fired m @ [Exited S, Entered X]\<rparr>),
                  cout := cout h @ snd (OnStateExit C S d) @ snd (OnStateEnter C X dX)\<rparr>)"
    if reach: "reachable C States this h" and one: "count_list States X = 1"
  proof -
    from one have mem: "X \<in> set States"
      using count_notin [of X States] by fastforce
    from reachable_built [OF reach] obtain h0 h1 where
      "StateMachine C States this h0 = Inr h1" by blast
    from built_IsDerivedFromState [OF this mem] one
    have chk: "Transition_check C States X = None"
      by (simp add: Transition_check_def)
    from Transition_valid_result [OF reachable_valid [OF reach] chk]
    show ?thesis by blast
  qed
  have no_runtime_failure: "build_time f"
    if reach: "reachable C States this h" and fail: "Transition C States X this h = Inl f"
    for f
  proof (cases "Transition_check C States X")
    case None
    from Transition_valid_result [OF reachable_valid [OF reach] None] fail
    show ?thesis by auto
  next
    case (Some g)
    with fail have "f = g" by (simp add: Transition_def)
    with Some show ?thesis
      by (auto simp: Transition_check_def split: if_splits)
  qed
  from same undeclared declared no_runtime_failure show ?thesis by blast
qed

theorem Transition_build_time_checked_witness:
  "reachable tcp_program TcpStateMachine 0
     \<lparr>objects = (\<lambda>a. None)(0 \<mapsto>
        \<lparr>states = map (\<lambda>S. (S, ())) TcpStateMachine,
         currentState = AddressOf 0 ClosedState, fired = []\<rparr>),
      cout = []\<rparr> \<and>
   count_list TcpStateMachine EstablishedState = 1 \<and>
   Transition tcp_program TcpStateMachine EstablishedState 0
     \<lparr>objects = (\<lambda>a. None)(0 \<mapsto>
        \<lparr>states = map (\<lambda>S. (S, ())) TcpStateMachine,
         currentState = AddressOf 0 ClosedState, fired = []\<rparr>),
      cout = []\<rparr> =
   Inr \<lparr>objects = (\<lambda>a. None)(0 \<mapsto>
          \<lparr>states = map (\<lambda>S. (S, ())) TcpStateMachine,
           currentState = AddressOf 0 EstablishedState,
           fired = [Exited ClosedState, Entered EstablishedState]\<rparr>),
        cout = [''Entering EstablishedState'']\<rparr> \<and>
   State2 \<notin> set [State1] \<and>
   (\<exists>f. build_time f \<and> (\<forall>a n. Transition test_program [State1] State2 a n = Inl f))"
proof -
  let ?h0 = "\<lparr>objects = (\<lambda>a. None)(0 \<mapsto>
        \<lparr>states = map (\<lambda>S. (S, ())) TcpStateMachine,
         currentState = AddressOf 0 ClosedState, fired = []\<rparr>),
      cout = []\<rparr> :: (tcp_state, unit) memory"
  have reach: "reachable tcp_program TcpStateMachine 0 ?h0"
    by (rule reachable.constructed [OF tcp_constructed])
  have one: "count_list TcpStateMachine EstablishedState = 1"
    by (simp add: TcpStateMachine_def)
  have undeclared: "State2 \<notin> set [State1]" by simp
  have exit_hook: "OnStateExit tcp_program ClosedState () = ((), [])"
    by (simp add: OnStateExit_def tcp_program_def State_OnStateExit_def)
  have enter_hook: "OnStateEnter tcp_program EstablishedState () =
      ((), [''Entering EstablishedState''])"
    by (simp add: OnStateEnter_def tcp_program_def tcp_OnStateEnter_def)
  from Transition_build_time_checked [of tcp_program TcpStateMachine EstablishedState 0 ?h0]
    reach one
  have "Transition tcp_program TcpStateMachine EstablishedState 0 ?h0 =
      Inr \<lparr>objects = (\<lambda>a. None)(0 \<mapsto>
          \<lparr>states = map (\<lambda>S. (S, ())) TcpStateMachine,
           currentState = AddressOf 0 EstablishedState,
           fired = [Exited ClosedState, Entered EstablishedState]\<rparr>),
        cout = [''Entering EstablishedState'']\<rparr>"
    by (auto simp: exit_hook enter_hook TcpStateMachine_def)
  with Transition_build_time_checked [of test_program "[State1]" State2 0 program_start]
    reach one undeclared
  show ?thesis by simp
qed

text \<open>
  C9. When the active state object's class does not override \<^verbatim>\<open>Name\<close>, in any memory the
  program can reach from a default-constructed machine, \<^verbatim>\<open>GetCurrentStateName\<close> returns the
  base class's string \<^verbatim>\<open><Unnamed State>\<close>, whatever the class is called.
\<close>

theorem GetCurrentStateName_unnamed:
  assumes "reachable C States this h"
    and "objects h this = Some m"
    and "currentState m = AddressOf this S"
    and "Name_override C S = None"
  shows "GetCurrentStateName C this h = Inr ''<Unnamed State>''"
proof -
  from valid_active_instance [OF reachable_valid [OF assms(1)]] assms(2,3) obtain d where
    "map_of (states m) S = Some d" by auto
  with assms(2,3,4) show ?thesis
    by (simp add: GetCurrentStateName_def object_at_def Name_def State_Name_def)
qed

theorem GetCurrentStateName_unnamed_witness:
  "reachable tcp_program TcpStateMachine 0
     \<lparr>objects = (\<lambda>a. None)(0 \<mapsto>
        \<lparr>states = map (\<lambda>S. (S, ())) TcpStateMachine,
         currentState = AddressOf 0 ClosedState, fired = []\<rparr>),
      cout = []\<rparr> \<and>
   Name_override tcp_program ClosedState = None \<and>
   GetCurrentStateName tcp_program 0
     \<lparr>objects = (\<lambda>a. None)(0 \<mapsto>
        \<lparr>states = map (\<lambda>S. (S, ())) TcpStateMachine,
         currentState = AddressOf 0 ClosedState, fired = []\<rparr>),
      cout = []\<rparr> = Inr ''<Unnamed State>''"
proof -
  let ?m0 = "\<lparr>states = map (\<lambda>S. (S, ())) TcpStateMachine,
         currentState = AddressOf 0 ClosedState, fired = []\<rparr> :: (tcp_state, unit) machine"
  let ?h0 = "\<lparr>objects = (\<lambda>a. None)(0 \<mapsto> ?m0), cout = []\<rparr>"
  have reach: "reachable tcp_program TcpStateMachine 0 ?h0"
    by (rule reachable.constructed [OF tcp_constructed])
  have obj: "objects ?h0 0 = Some ?m0" by simp
  have cur: "currentState ?m0 = AddressOf 0 ClosedState" by simp
  have none: "Name_override tcp_program ClosedState = None"
    by (simp add: tcp_program_def)
  from GetCurrentStateName_unnamed [OF reach obj cur none]
  show ?thesis
    using reach none by simp
qed

text \<open>
  C10. Which directive \<^verbatim>\<open>Dispatch\<close> selects, and which state is active afterwards, is
  decided by the class of the active state and the class of the event. Take two machines
  of one specialisation, each with a valid active reference, of the same class, whatever
  their state objects hold, whatever has happened to them before and wherever they are,
  and two events of one class, whatever data they carry: both calls return normally,
  both select the directive type the pair of classes gives, and both end with the state
  of the same class active, the target of that directive or, for \<^verbatim>\<open>NullTransition\<close>, the
  state that was active.
\<close>

theorem Dispatch_type_driven:
  assumes v1: "active_reference_valid States this1 h1"
    and v2: "active_reference_valid States this2 h2"
    and o1: "objects h1 this1 = Some m1"
    and o2: "objects h2 this2 = Some m2"
    and same: "pointee (currentState m1) = pointee (currentState m2)"
    and chk: "Dispatch_check C States E = None"
  shows "\<exists>S n1 n2 h1' h2' m1' m2'.
           currentState m1 = AddressOf this1 S \<and> currentState m2 = AddressOf this2 S \<and>
           InvokeHandle C (currentState m1) (E, p1) h1 = Inr (InvokeHandle_type C S E, n1) \<and>
           InvokeHandle C (currentState m2) (E, p2) h2 = Inr (InvokeHandle_type C S E, n2) \<and>
           Dispatch C States (E, p1) this1 h1 = Inr h1' \<and>
           Dispatch C States (E, p2) this2 h2 = Inr h2' \<and>
           objects h1' this1 = Some m1' \<and> objects h2' this2 = Some m2' \<and>
           pointee (currentState m1') = pointee (currentState m2') \<and>
           currentState m1' =
             AddressOf this1 (case InvokeHandle_type C S E of
                                NullTransition \<Rightarrow> S | TransitionTo X \<Rightarrow> X) \<and>
           currentState m2' =
             AddressOf this2 (case InvokeHandle_type C S E of
                                NullTransition \<Rightarrow> S | TransitionTo X \<Rightarrow> X)"
proof -
  from valid_active_instance [OF v1] o1 obtain S where c1: "currentState m1 = AddressOf this1 S"
    by auto
  from valid_active_instance [OF v2] o2 obtain T where c2: "currentState m2 = AddressOf this2 T"
    by auto
  from same c1 c2 have "T = S" by simp
  with c2 have c2: "currentState m2 = AddressOf this2 S" by simp
  let ?target = "case InvokeHandle_type C S E of NullTransition \<Rightarrow> S | TransitionTo X \<Rightarrow> X"
  from Dispatch_valid_result [OF v1 o1 c1 chk, of p1] obtain n1 h1' m1' where
    r1: "InvokeHandle C (currentState m1) (E, p1) h1 = Inr (InvokeHandle_type C S E, n1)"
      "Dispatch C States (E, p1) this1 h1 = Inr h1'" "objects h1' this1 = Some m1'"
      "currentState m1' = AddressOf this1 ?target"
    by blast
  from Dispatch_valid_result [OF v2 o2 c2 chk, of p2] obtain n2 h2' m2' where
    r2: "InvokeHandle C (currentState m2) (E, p2) h2 = Inr (InvokeHandle_type C S E, n2)"
      "Dispatch C States (E, p2) this2 h2 = Inr h2'" "objects h2' this2 = Some m2'"
      "currentState m2' = AddressOf this2 ?target"
    by blast
  have "pointee (currentState m1') = pointee (currentState m2')"
    using r1(4) r2(4) by simp
  with c1 c2 r1 r2 show ?thesis by blast
qed

theorem Dispatch_type_driven_witness:
  "active_reference_valid test_StateMachine 0
     \<lparr>objects = (\<lambda>a. None)(0 \<mapsto>
        \<lparr>states = [(State1, ()), (State2, ())], currentState = AddressOf 0 State1,
         fired = []\<rparr>),
      cout = []\<rparr> \<and>
   active_reference_valid test_StateMachine 7
     \<lparr>objects = (\<lambda>a. None)(7 \<mapsto>
        \<lparr>states = [(State1, ()), (State2, ())], currentState = AddressOf 7 State1,
         fired = [Exited State1, Entered State2, Exited State2, Entered State1]\<rparr>),
      cout = []\<rparr> \<and>
   Dispatch_check test_program test_StateMachine Event1 = None \<and>
   (\<exists>h1' h2' m1' m2'.
      Dispatch test_program test_StateMachine (Event1, ()) 0
        \<lparr>objects = (\<lambda>a. None)(0 \<mapsto>
           \<lparr>states = [(State1, ()), (State2, ())], currentState = AddressOf 0 State1,
            fired = []\<rparr>),
         cout = []\<rparr> = Inr h1' \<and>
      Dispatch test_program test_StateMachine (Event1, ()) 7
        \<lparr>objects = (\<lambda>a. None)(7 \<mapsto>
           \<lparr>states = [(State1, ()), (State2, ())], currentState = AddressOf 7 State1,
            fired = [Exited State1, Entered State2, Exited State2, Entered State1]\<rparr>),
         cout = []\<rparr> = Inr h2' \<and>
      objects h1' 0 = Some m1' \<and> objects h2' 7 = Some m2' \<and>
      currentState m1' = AddressOf 0 State2 \<and> currentState m2' = AddressOf 7 State2)"
proof -
  let ?m1 = "\<lparr>states = [(State1, ()), (State2, ())], currentState = AddressOf 0 State1,
             fired = []\<rparr> :: (test_state, unit) machine"
  let ?m2 = "\<lparr>states = [(State1, ()), (State2, ())], currentState = AddressOf 7 State1,
             fired = [Exited State1, Entered State2, Exited State2, Entered State1]\<rparr>
             :: (test_state, unit) machine"
  let ?h1 = "\<lparr>objects = (\<lambda>a. None)(0 \<mapsto> ?m1), cout = []\<rparr>"
  let ?h2 = "\<lparr>objects = (\<lambda>a. None)(7 \<mapsto> ?m2), cout = []\<rparr>"
  have v1: "active_reference_valid test_StateMachine 0 ?h1"
    by (rule test_valid_constructed)
  have v2: "active_reference_valid test_StateMachine 7 ?h2"
    by (simp add: active_reference_valid_def test_StateMachine_def)
  have o1: "objects ?h1 0 = Some ?m1" by simp
  have o2: "objects ?h2 7 = Some ?m2" by simp
  have same: "pointee (currentState ?m1) = pointee (currentState ?m2)" by simp
  have chk: "Dispatch_check test_program test_StateMachine Event1 = None"
    by (rule test_Dispatch_check)
  have ty: "InvokeHandle_type test_program State1 Event1 = TransitionTo State2"
    by (simp add: InvokeHandle_type_def test_program_def returns_TransitionTo_def)
  from Dispatch_type_driven [OF v1 v2 o1 o2 same chk, of "()" "()"]
  obtain h1' h2' m1' m2' where
    "Dispatch test_program test_StateMachine (Event1, ()) 0 ?h1 = Inr h1'"
    "Dispatch test_program test_StateMachine (Event1, ()) 7 ?h2 = Inr h2'"
    "objects h1' 0 = Some m1'" "objects h2' 7 = Some m2'"
    "currentState m1' = AddressOf 0 State2" "currentState m2' = AddressOf 7 State2"
    by (auto simp: ty)
  with v1 v2 chk show ?thesis by blast
qed

text \<open>
  C7. The door: a machine over \<^verbatim>\<open>ClosedState\<close> and \<^verbatim>\<open>OpenState\<close>, built with the macros,
  so each class's name is its identifier. A machine that has just been constructed
  reports \<^verbatim>\<open>ClosedState\<close>; after \<^verbatim>\<open>Dispatch(OpenEvent{})\<close> it reports \<^verbatim>\<open>OpenState\<close>; after a
  further \<^verbatim>\<open>Dispatch(CloseEvent{})\<close> it reports \<^verbatim>\<open>ClosedState\<close> again, which is the line
  \<^verbatim>\<open>main\<close> prints. The names are not \<^verbatim>\<open>Closed\<close> and \<^verbatim>\<open>Open\<close>.
\<close>

theorem door_scenario:
  "and_then (StateMachine door_program Door 0 program_start)
     (GetCurrentStateName door_program 0) = Inr ''ClosedState'' \<and>
   and_then
     (and_then (StateMachine door_program Door 0 program_start)
        (Dispatch door_program Door (OpenEvent, ()) 0))
     (GetCurrentStateName door_program 0) = Inr ''OpenState'' \<and>
   and_then
     (and_then
        (and_then (StateMachine door_program Door 0 program_start)
           (Dispatch door_program Door (OpenEvent, ()) 0))
        (Dispatch door_program Door (door_event.CloseEvent, ()) 0))
     (GetCurrentStateName door_program 0) = Inr ''ClosedState'' \<and>
   door_main = Inr [''ClosedState'']"
  by (simp add: door_main_def StateMachine_def Door_def door_program_def program_start_def
      IsDerivedFromState_def Dispatch_def Dispatch_check_def IsDerivedFromEvent_def
      List.map_filter_def InvokeHandle_type_def FSM_TRANSITION_def Transition_check_def
      InvokeHandle_def call_member_def Transition_def CallOnStateExit_def
      CallOnStateEnter_def OnStateExit_def OnStateEnter_def State_OnStateExit_def
      State_OnStateEnter_def GetCurrentStateName_def Name_def object_at_def)

theorem door_scenario_counterexample:
  "and_then (StateMachine door_program Door 0 program_start)
     (GetCurrentStateName door_program 0) \<noteq> Inr ''Closed''"
  by (simp add: StateMachine_def Door_def door_program_def program_start_def
      IsDerivedFromState_def GetCurrentStateName_def Name_def object_at_def)

text \<open>
  C8. The TCP skeleton: \<^verbatim>\<open>main\<close> dispatches \<^verbatim>\<open>PassiveOpenEvent\<close>, \<^verbatim>\<open>SendDataEvent\<close> and
  \<^verbatim>\<open>SynAckEvent\<close> to a new machine. It ends with the \<^verbatim>\<open>EstablishedState\<close> object active,
  having gone through \<^verbatim>\<open>ListenState\<close> and \<^verbatim>\<open>SynSentState\<close>; the entry hook of
  \<^verbatim>\<open>EstablishedState\<close> has been called once and has written its line once. No class of
  this demo overrides \<^verbatim>\<open>Name\<close>, so the current state's name is \<^verbatim>\<open><Unnamed State>\<close>, not
  \<^verbatim>\<open>Established\<close>.
\<close>

theorem tcp_scenario:
  "tcp_main =
     Inr \<lparr>objects = (\<lambda>a. None)(0 \<mapsto>
            \<lparr>states = map (\<lambda>S. (S, ())) TcpStateMachine,
             currentState = AddressOf 0 EstablishedState,
             fired = [Exited ClosedState, Entered ListenState,
                      Exited ListenState, Entered SynSentState,
                      Exited SynSentState, Entered EstablishedState]\<rparr>),
          cout = [''Got PassiveOpenEvent'', ''Sending data'', ''Got synack'',
                  ''Entering EstablishedState'']\<rparr> \<and>
   and_then tcp_main
     (\<lambda>h. Inr (map_option (\<lambda>m. count_list (fired m) (Entered EstablishedState))
                 (objects h 0))) = Inr (Some 1) \<and>
   and_then tcp_main (GetCurrentStateName tcp_program 0) = Inr ''<Unnamed State>''"
  by (simp add: tcp_main_def StateMachine_def TcpStateMachine_def tcp_program_def
      program_start_def tcp_Handle_def tcp_OnStateEnter_def printing_Handle_def
      returns_TransitionTo_def FSM_TRANSITION_def
      IsDerivedFromState_def Dispatch_def Dispatch_check_def IsDerivedFromEvent_def
      List.map_filter_def InvokeHandle_type_def Transition_check_def
      InvokeHandle_def call_member_def Transition_def CallOnStateExit_def
      CallOnStateEnter_def OnStateExit_def OnStateEnter_def State_OnStateExit_def
      State_OnStateEnter_def GetCurrentStateName_def Name_def State_Name_def object_at_def)

theorem tcp_scenario_counterexample:
  "and_then tcp_main (GetCurrentStateName tcp_program 0) \<noteq> Inr ''Established''"
  by code_simp

end
